theory Spec2Isabelle
  imports
    Main
    "HOL-Library.Sublist"
    "HOL-Library.AList"
    "HOL-Library.Char_ord"
    "HOL-Library.List_Lexorder"
    "HOL-Library.Multiset"
begin

section \<open>Text operations used by the backend\<close>

text \<open>
  Texts are strings of bytes, in UTF-8. Python's test \<open>p in s\<close> on strings is the
  contiguous-substring test \<open>sublist p s\<close>; for an ASCII \<open>p\<close> it gives the same
  answer on the bytes as on the code points. \<open>str.lower\<close> follows the Unicode tables
  of the interpreter, which are no part of the program: it is the field \<open>str_lower\<close>
  of the environment below. \<open>capitalize\<close> is \<open>str.capitalize\<close> on ASCII text
  (first letter upper case, the others lower case), which is all the program applies
  it to: the six vocabulary terms.

  \<open>lower\<close> is the lowering of the example environments. It folds the letters
  \<open>A\<close>..\<open>Z\<close> and maps the two code points beyond ASCII whose lower case holds an
  ASCII letter: U+0130 (bytes \<open>C4 B0\<close>) to \<open>i\<close> followed by U+0307 (bytes
  \<open>CC 87\<close>), and U+212A (bytes \<open>E2 84 AA\<close>) to \<open>k\<close>. Every other byte is kept.
\<close>

definition lower_char :: "char \<Rightarrow> char" where
  "lower_char c =
     (if CHR ''A'' \<le> c \<and> c \<le> CHR ''Z'' then char_of (of_char c + (32::nat)) else c)"

definition upper_char :: "char \<Rightarrow> char" where
  "upper_char c =
     (if CHR ''a'' \<le> c \<and> c \<le> CHR ''z'' then char_of (of_char c - (32::nat)) else c)"

fun capitalize :: "string \<Rightarrow> string" where
  "capitalize [] = []"
| "capitalize (c # cs) = upper_char c # map lower_char cs"

fun lower :: "string \<Rightarrow> string" where
  "lower [] = []"
| "lower (c # cs) =
     (if prefix [CHR 0xC4, CHR 0xB0] (c # cs)
      then [CHR ''i'', CHR 0xCC, CHR 0x87] @ lower (drop 1 cs)
      else if prefix [CHR 0xE2, CHR 0x84, CHR 0xAA] (c # cs)
      then [CHR ''k''] @ lower (drop 2 cs)
      else lower_char c # lower cs)"

section \<open>Exceptions\<close>

text \<open>
  A raised Python exception is a value. \<open>HTTPException status_code detail\<close> is
  FastAPI's exception, which the framework turns into a response with that status;
  \<open>Exception msg\<close> is any other exception, \<open>msg\<close> being its \<open>str()\<close>. For an
  \<open>HTTPException\<close>, \<open>str()\<close> is the status code, a colon and the detail.
\<close>

datatype exn = HTTPException nat string | Exception string

fun str_nat :: "nat \<Rightarrow> string" where
  "str_nat n =
     (if n < 10 then [char_of (48 + n)]
      else str_nat (n div 10) @ [char_of (48 + n mod 10)])"

declare str_nat.simps [simp del]

fun str_exn :: "exn \<Rightarrow> string" where
  "str_exn (HTTPException status_code detail) = str_nat status_code @ '': '' @ detail"
| "str_exn (Exception msg) = msg"

text \<open>The status of the response the framework sends for an endpoint's outcome.\<close>

fun status_code_of :: "exn + 'a \<Rightarrow> nat" where
  "status_code_of (Inr r) = 200"
| "status_code_of (Inl (HTTPException status_code detail)) = status_code"
| "status_code_of (Inl (Exception msg)) = 500"

section \<open>Timestamps\<close>

text \<open>
  A \<open>datetime\<close> in UTC, as \<open>datetime.now(timezone.utc)\<close> returns it, and the text
  that \<open>isoformat()\<close> gives for it: \<open>YYYY-MM-DDTHH:MM:SS+00:00\<close>, with the
  fraction \<open>.ffffff\<close> after the seconds when the microsecond is not zero.
  \<open>zfill k n\<close> is \<open>n\<close> in decimal on \<open>k\<close> digits, and \<open>datetime_less\<close> is the
  comparison of two such values, field by field.
\<close>

record datetime =
  year :: nat
  month :: nat
  day :: nat
  hour :: nat
  minute :: nat
  second :: nat
  microsecond :: nat

definition valid_datetime :: "datetime \<Rightarrow> bool" where
  "valid_datetime d \<longleftrightarrow>
     1 \<le> year d \<and> year d \<le> 9999 \<and> 1 \<le> month d \<and> month d \<le> 12
     \<and> 1 \<le> day d \<and> day d \<le> 31 \<and> hour d < 24 \<and> minute d < 60 \<and> second d < 60
     \<and> microsecond d < 1000000"

definition datetime_less :: "datetime \<Rightarrow> datetime \<Rightarrow> bool" where
  "datetime_less a b \<longleftrightarrow>
     year a < year b \<or> year a = year b \<and>
    (month a < month b \<or> month a = month b \<and>
    (day a < day b \<or> day a = day b \<and>
    (hour a < hour b \<or> hour a = hour b \<and>
    (minute a < minute b \<or> minute a = minute b \<and>
    (second a < second b \<or> second a = second b \<and> microsecond a < microsecond b)))))"

definition digit_char :: "nat \<Rightarrow> char" where
  "digit_char d = char_of (48 + d)"

fun zfill :: "nat \<Rightarrow> nat \<Rightarrow> string" where
  "zfill 0 n = []"
| "zfill (Suc k) n = zfill k (n div 10) @ [digit_char (n mod 10)]"

definition isoformat :: "datetime \<Rightarrow> string" where
  "isoformat d =
     zfill 4 (year d) @ ''-'' @ zfill 2 (month d) @ ''-'' @ zfill 2 (day d) @ ''T'' @
     zfill 2 (hour d) @ '':'' @ zfill 2 (minute d) @ '':'' @ zfill 2 (second d) @
     (if microsecond d = 0 then [] else ''.'' @ zfill 6 (microsecond d)) @ ''+00:00''"

section \<open>Data model\<close>

text \<open>
  The pydantic models, as the dictionaries that are given to the store, and the
  dictionaries the endpoints return. \<open>timestamp\<close> holds the \<open>isoformat()\<close> text by
  which \<open>prepare_for_mongo\<close> replaces the \<open>datetime\<close> of the creation instant, and
  the field \<open>id\<close> is written \<open>id'\<close> (and \<open>text\<close> of a message \<open>text'\<close>).

  A document of a collection is such a dictionary together with the value of its key
  \<open>_id\<close>: the \<open>ObjectId\<close> that \<open>insert_one\<close> gives it, or the text \<open>Str\<close> that
  \<open>prepare_from_mongo\<close> makes of it.
\<close>

datatype bson_id = ObjectId string | Str string

type_synonym 'a document = "bson_id \<times> 'a"

record ChatMessage =
  id' :: string
  session_id :: string
  message :: string
  response :: string
  timestamp :: string

record ChatRequest =
  message :: string
  session_id :: string

record CandlestickAnalysis =
  id' :: string
  session_id :: string
  filename :: string
  analysis :: string
  patterns_detected :: "string list"
  indicators :: "(string \<times> string) list"
  recommendations :: "(string \<times> string) list"
  timestamp :: string

text \<open>
  An uploaded file: its name, its declared media kind (absent when the part has no
  content type) and its bytes.
\<close>

record UploadFile =
  filename :: string
  content_type :: "string option"
  file_content :: string

record ChatResponse =
  response :: string
  session_id :: string

record AnalysisResponse =
  analysis :: string
  patterns_detected :: "string list"
  recommendations :: "(string \<times> string) list"
  session_id :: string
  filename :: string

record ChatHistory =
  chats :: "ChatMessage document list"
  session_id :: string

record AnalysisHistory =
  analyses :: "CandlestickAnalysis document list"
  session_id :: string

text \<open>
  The provider client of \<open>emergentintegrations\<close>: an \<open>LlmChat\<close> object with the
  arguments it was built from; \<open>object_id\<close> is the identity of the Python object.
  A \<open>UserMessage\<close> carries a text and the base64 images attached to it.
\<close>

record LlmChat =
  object_id :: nat
  api_key :: string
  session_id :: string
  system_message :: string
  model :: "string \<times> string"

record UserMessage =
  text' :: string
  file_contents :: "string list"

section \<open>Environment and state\<close>

text \<open>
  What a request finds outside the program: the configured credential, what the
  provider answers to a message (a text, or an exception for a failed or timed-out
  call), whether the store's write and read operations raise, the values that
  \<open>uuid.uuid4()\<close> and \<open>datetime.now(timezone.utc)\<close> give to a new record, the
  \<open>ObjectId\<close> that the driver gives to an inserted document, and the interpreter's
  \<open>str.lower\<close>.
\<close>

record env =
  EMERGENT_LLM_KEY :: "string option"
  provider :: "LlmChat \<Rightarrow> UserMessage \<Rightarrow> exn + string"
  insert_error :: "exn option"
  find_error :: "exn option"
  uuid4 :: string
  utcnow :: datetime
  objectid :: string
  str_lower :: "string \<Rightarrow> string"

text \<open>
  The state a request changes: the two collections in insertion order, the
  \<open>LlmChat\<close> objects created so far, and the provider calls made so far.
\<close>

record world =
  chat_messages :: "ChatMessage document list"
  candlestick_analyses :: "CandlestickAnalysis document list"
  llm_chats :: "LlmChat list"
  provider_calls :: "(LlmChat \<times> UserMessage) list"

section \<open>Model gateway (\<open>get_llm_chat\<close>, \<open>analyze_candlestick_image\<close>)\<close>

definition default_system_message :: string where
  "default_system_message =
     ''You are an expert stock market analyst and financial advisor '' @
     ''specializing in candlestick pattern analysis and technical indicators. '' @
     ''\<newline>'' @
     ''\<newline>'' @
     ''Your expertise includes:\<newline>'' @
     ''- Candlestick pattern recognition (doji, hammer, shooting star, '' @
     ''engulfing patterns, etc.)\<newline>'' @
     ''- Technical indicators (RSI, MACD, Bollinger Bands, Moving Averages, '' @
     ''etc.)\<newline>'' @
     ''- Support and resistance levels\<newline>'' @
     ''- Risk management (stop loss and profit booking strategies)\<newline>'' @
     ''- Market sentiment analysis\<newline>'' @
     ''\<newline>'' @
     ''Always provide:\<newline>'' @
     ''1. Clear, actionable insights\<newline>'' @
     ''2. Risk management recommendations\<newline>'' @
     ''3. Entry/exit strategies when appropriate\<newline>'' @
     ''4. Confidence levels for your analysis\<newline>'' @
     ''5. Educational explanations for beginners\<newline>'' @
     ''\<newline>'' @
     ''Keep responses professional yet accessible, and always emphasize risk '' @
     ''management in trading.''"

definition analysis_system_message :: string where
  "analysis_system_message =
     ''You are an expert technical analyst specializing in candlestick pattern '' @
     ''analysis. Analyze the uploaded candlestick chart image and '' @
     ''provide:\<newline>'' @
     ''\<newline>'' @
     ''1. **Pattern Recognition**: Identify specific candlestick patterns '' @
     ''(doji, hammer, engulfing, etc.)\<newline>'' @
     ''2. **Technical Indicators**: Analyze visible indicators (RSI, MACD, '' @
     ''volume, moving averages)\<newline>'' @
     ''3. **Support/Resistance**: Identify key levels\<newline>'' @
     ''4. **Market Sentiment**: Current trend and momentum\<newline>'' @
     ''5. **Trading Strategy**: \<newline>'' @
     ''   - Entry points\<newline>'' @
     ''   - Stop loss levels (risk management)\<newline>'' @
     ''   - Profit targets (profit booking levels)\<newline>'' @
     ''   - Risk-reward ratio\<newline>'' @
     ''6. **Confidence Level**: Rate your analysis confidence (1-10)\<newline>'' @
     ''\<newline>'' @
     ''Be specific about timeframes, price levels, and provide actionable '' @
     ''trading advice with proper risk management.''"

definition analysis_user_text :: string where
  "analysis_user_text =
     ''Please analyze this candlestick chart image and provide comprehensive '' @
     ''trading analysis with specific patterns, indicators, and trading '' @
     ''recommendations including stop loss and profit booking strategies.''"

text \<open>
  \<open>get_llm_chat\<close>: an absent or empty credential raises; an absent or empty
  \<open>system_message\<close> is replaced by the default persona; then a new \<open>LlmChat\<close>
  object is built, on every call. \<open>new_llm_chat\<close> is the constructor call
  \<open>LlmChat(...).with_model("openai", "gpt-4o")\<close>; the new object's identity is the
  number of objects created before it.
\<close>

definition new_llm_chat :: "world \<Rightarrow> string \<Rightarrow> string \<Rightarrow> string option \<Rightarrow> LlmChat" where
  "new_llm_chat w key sid sm =
     \<lparr>object_id = length (llm_chats w), api_key = key, LlmChat.session_id = sid,
      system_message =
        (case sm of None \<Rightarrow> default_system_message
         | Some s \<Rightarrow> if s = [] then default_system_message else s),
      model = (''openai'', ''gpt-4o'')\<rparr>"

definition get_llm_chat ::
  "env \<Rightarrow> world \<Rightarrow> string \<Rightarrow> string option \<Rightarrow> (exn + LlmChat) \<times> world" where
  "get_llm_chat e w sid sm =
     (case EMERGENT_LLM_KEY e of
        None \<Rightarrow> (Inl (HTTPException 500 ''LLM API key not configured''), w)
      | Some key \<Rightarrow>
          if key = [] then (Inl (HTTPException 500 ''LLM API key not configured''), w)
          else
            (let chat = new_llm_chat w key sid sm
             in (Inr chat, w\<lparr>llm_chats := llm_chats w @ [chat]\<rparr>)))"

text \<open>\<open>chat.send_message\<close>: one outbound call, whose outcome the provider decides.\<close>

definition send_message ::
  "env \<Rightarrow> world \<Rightarrow> LlmChat \<Rightarrow> UserMessage \<Rightarrow> (exn + string) \<times> world" where
  "send_message e w chat user_message =
     (provider e chat user_message,
      w\<lparr>provider_calls := provider_calls w @ [(chat, user_message)]\<rparr>)"

text \<open>
  \<open>analyze_candlestick_image\<close>: every exception of the \<open>try\<close> block, the missing
  credential included, is caught and returned as a text.
\<close>

definition analyze_candlestick_image ::
  "env \<Rightarrow> world \<Rightarrow> string \<Rightarrow> string \<Rightarrow> string \<times> world" where
  "analyze_candlestick_image e w image_base64 sid =
     (case get_llm_chat e w sid (Some analysis_system_message) of
        (Inl ex, w1) \<Rightarrow> (''Error analyzing image: '' @ str_exn ex, w1)
      | (Inr chat, w1) \<Rightarrow>
          (case send_message e w1 chat
                  \<lparr>text' = analysis_user_text, file_contents = [image_base64]\<rparr> of
             (Inl ex, w2) \<Rightarrow> (''Error analyzing image: '' @ str_exn ex, w2)
           | (Inr reply, w2) \<Rightarrow> (reply, w2)))"

section \<open>Base64 (\<open>base64.b64encode\<close>)\<close>

definition b64_alphabet :: string where
  "b64_alphabet = ''ABCDEFGHIJKLMNOPQRSTUVWXYZabcdefghijklmnopqrstuvwxyz0123456789+/''"

definition b64_char :: "nat \<Rightarrow> char" where
  "b64_char n = b64_alphabet ! (n mod 64)"

fun b64encode :: "string \<Rightarrow> string" where
  "b64encode (a # b # c # rest) =
     (let x = of_char a; y = of_char b; z = of_char c
      in [b64_char (x div 4), b64_char ((x mod 4) * 16 + y div 16),
          b64_char ((y mod 16) * 4 + z div 64), b64_char (z mod 64)]) @ b64encode rest"
| "b64encode [a, b] =
     (let x = of_char a; y = of_char b
      in [b64_char (x div 4), b64_char ((x mod 4) * 16 + y div 16),
          b64_char ((y mod 16) * 4), CHR ''=''])"
| "b64encode [a] =
     (let x = of_char a
      in [b64_char (x div 4), b64_char ((x mod 4) * 16), CHR ''='', CHR ''=''])"
| "b64encode [] = []"

section \<open>Signal extraction (\<open>analyze_candlestick_chart\<close>, lines 204--223)\<close>

text \<open>
  The variable \<open>reply\<close> is the text \<open>analysis\<close> that the model returned, and
  \<open>lw\<close> is \<open>str.lower\<close>.
\<close>

definition pattern_keywords :: "string list" where
  "pattern_keywords =
     [''doji'', ''hammer'', ''shooting star'', ''engulfing'', ''pin bar'', ''inside bar'']"

text \<open>
  The loop \<open>for pattern in pattern_keywords\<close>: the accumulator is the list
  \<open>patterns_detected\<close>, to which \<open>append\<close> adds at the end.
\<close>

fun pattern_loop ::
  "(string \<Rightarrow> string) \<Rightarrow> string list \<Rightarrow> string \<Rightarrow> string list \<Rightarrow> string list" where
  "pattern_loop lw [] reply detected = detected"
| "pattern_loop lw (pattern # rest) reply detected =
     pattern_loop lw rest reply
       (if sublist (lw pattern) (lw reply)
        then detected @ [capitalize pattern]
        else detected)"

definition detect_patterns :: "(string \<Rightarrow> string) \<Rightarrow> string \<Rightarrow> string list" where
  "detect_patterns lw reply = pattern_loop lw pattern_keywords reply []"

text \<open>
  The dictionary \<open>recommendations\<close> is an association list in insertion order;
  \<open>d[k] = v\<close> is \<open>AList.update k v d\<close> (replace in place, or add at the end).
\<close>

definition extract_recommendations ::
  "(string \<Rightarrow> string) \<Rightarrow> string \<Rightarrow> (string \<times> string) list" where
  "extract_recommendations lw reply =
     (let r0 = [];
          r1 = (if sublist ''stop loss'' (lw reply)
                then AList.update ''risk_management'' ''Stop loss recommended'' r0 else r0);
          r2 = (if sublist ''profit'' (lw reply)
                then AList.update ''profit_booking'' ''Profit targets identified'' r1 else r1);
          r3 = (if sublist ''buy'' (lw reply)
                then AList.update ''action'' ''Potential buy signal'' r2
                else if sublist ''sell'' (lw reply)
                then AList.update ''action'' ''Potential sell signal'' r2
                else r2)
      in r3)"

section \<open>Session store (the two collections)\<close>

text \<open>
  \<open>insert_one\<close> gives the dictionary an \<open>_id\<close> and adds it at the end of a
  collection, or raises and writes nothing. A query \<open>find({"session_id": s}).sort("timestamp", d).to_list(n)\<close> keeps
  the documents of session \<open>s\<close>, orders them by the stored timestamp text
  (ascending for \<open>d = 1\<close>, descending for \<open>d = -1\<close>; documents with equal
  timestamps stay in insertion order) and returns at most \<open>n\<close> of them, or raises.
\<close>

definition insert_one :: "env \<Rightarrow> 'a document list \<Rightarrow> 'a \<Rightarrow> exn + 'a document list" where
  "insert_one e collection dict =
     (case insert_error e of
        Some ex \<Rightarrow> Inl ex
      | None \<Rightarrow> Inr (collection @ [(ObjectId (objectid e), dict)]))"

definition cursor_sort :: "('a \<Rightarrow> string) \<Rightarrow> int \<Rightarrow> 'a list \<Rightarrow> 'a list" where
  "cursor_sort key direction docs =
     (if direction = 1 then sort_key key docs else rev (sort_key key (rev docs)))"

definition find_sort_to_list ::
  "env \<Rightarrow> 'a list \<Rightarrow> ('a \<Rightarrow> string) \<Rightarrow> string \<Rightarrow> ('a \<Rightarrow> string) \<Rightarrow> int \<Rightarrow> nat
     \<Rightarrow> exn + 'a list" where
  "find_sort_to_list e collection sid_of sid key direction n =
     (case find_error e of
        Some ex \<Rightarrow> Inl ex
      | None \<Rightarrow>
          Inr (take n (cursor_sort key direction
                         (filter (\<lambda>doc. sid_of doc = sid) collection))))"

text \<open>The documents of one session in a collection, in insertion order.\<close>

definition session_chats :: "world \<Rightarrow> string \<Rightarrow> ChatMessage document list" where
  "session_chats w sid =
     filter (\<lambda>doc. ChatMessage.session_id (snd doc) = sid) (chat_messages w)"

definition session_analyses :: "world \<Rightarrow> string \<Rightarrow> CandlestickAnalysis document list" where
  "session_analyses w sid =
     filter (\<lambda>doc. CandlestickAnalysis.session_id (snd doc) = sid) (candlestick_analyses w)"

text \<open>
  \<open>prepare_from_mongo\<close> on a list of documents: the value of \<open>_id\<close> becomes its
  text, everything else is kept. No endpoint calls it.
\<close>

fun str_id :: "bson_id \<Rightarrow> bson_id" where
  "str_id (ObjectId hex) = Str hex"
| "str_id (Str s) = Str s"

definition prepare_from_mongo :: "'a document list \<Rightarrow> 'a document list" where
  "prepare_from_mongo data = map (\<lambda>doc. (str_id (fst doc), snd doc)) data"

text \<open>
  What the framework does with the documents of a returned dictionary when it encodes
  the response as JSON: an \<open>ObjectId\<close> has no encoding and makes the encoder raise,
  after the endpoint function has returned.
\<close>

fun encodable :: "bson_id \<Rightarrow> bool" where
  "encodable (ObjectId hex) = False"
| "encodable (Str s) = True"

definition jsonable_encoder :: "'a document list \<Rightarrow> exn + 'a document list" where
  "jsonable_encoder docs =
     (if list_all (\<lambda>doc. encodable (fst doc)) docs then Inr docs
      else Inl (Exception ''ValueError: ObjectId object is not iterable''))"

section \<open>Endpoints\<close>

text \<open>
  Each endpoint is the body of its \<open>try\<close> block, which returns the response or the
  exception raised in it, followed by the \<open>except Exception\<close> clause.
\<close>

definition chat_with_ai_try ::
  "env \<Rightarrow> world \<Rightarrow> ChatRequest \<Rightarrow> (exn + ChatResponse) \<times> world" where
  "chat_with_ai_try e w request =
     (case get_llm_chat e w (ChatRequest.session_id request) None of
        (Inl ex, w1) \<Rightarrow> (Inl ex, w1)
      | (Inr chat, w1) \<Rightarrow>
          (case send_message e w1 chat
                  \<lparr>text' = ChatRequest.message request, file_contents = []\<rparr> of
             (Inl ex, w2) \<Rightarrow> (Inl ex, w2)
           | (Inr reply, w2) \<Rightarrow>
               (let chat_data =
                      \<lparr>ChatMessage.id' = uuid4 e,
                       ChatMessage.session_id = ChatRequest.session_id request,
                       ChatMessage.message = ChatRequest.message request,
                       ChatMessage.response = reply,
                       ChatMessage.timestamp = isoformat (utcnow e)\<rparr>
                in case insert_one e (chat_messages w2) chat_data of
                     Inl ex \<Rightarrow> (Inl ex, w2)
                   | Inr collection \<Rightarrow>
                       (Inr \<lparr>ChatResponse.response = reply,
                             ChatResponse.session_id = ChatRequest.session_id request\<rparr>,
                        w2\<lparr>chat_messages := collection\<rparr>))))"

definition chat_with_ai ::
  "env \<Rightarrow> world \<Rightarrow> ChatRequest \<Rightarrow> (exn + ChatResponse) \<times> world" where
  "chat_with_ai e w request =
     (case chat_with_ai_try e w request of
        (Inl ex, w') \<Rightarrow>
          (Inl (HTTPException 500 (''Chat service error: '' @ str_exn ex)), w')
      | (Inr r, w') \<Rightarrow> (Inr r, w'))"

text \<open>
  \<open>analyze_candlestick_chart\<close>: \<open>sid\<close> is the value bound to the parameter
  \<open>session_id\<close>. A file with no content type makes \<open>startswith\<close> fail on \<open>None\<close>.
\<close>

definition analyze_candlestick_chart_try ::
  "env \<Rightarrow> world \<Rightarrow> UploadFile \<Rightarrow> string \<Rightarrow> (exn + AnalysisResponse) \<times> world" where
  "analyze_candlestick_chart_try e w file sid =
     (case content_type file of
        None \<Rightarrow>
          (Inl (Exception ([CHR 0x27] @ ''NoneType'' @ [CHR 0x27] @ '' object has no attribute '' @
                           [CHR 0x27] @ ''startswith'' @ [CHR 0x27])), w)
      | Some ct \<Rightarrow>
          if \<not> prefix ''image/'' ct
          then (Inl (HTTPException 400 ''File must be an image''), w)
          else
            (let image_base64 = b64encode (file_content file);
                 (reply, w1) = analyze_candlestick_image e w image_base64 sid;
                 patterns = detect_patterns (str_lower e) reply;
                 indics = [];
                 recs = extract_recommendations (str_lower e) reply;
                 analysis_data =
                   \<lparr>CandlestickAnalysis.id' = uuid4 e,
                    CandlestickAnalysis.session_id = sid,
                    CandlestickAnalysis.filename = UploadFile.filename file,
                    CandlestickAnalysis.analysis = reply,
                    CandlestickAnalysis.patterns_detected = patterns,
                    CandlestickAnalysis.indicators = indics,
                    CandlestickAnalysis.recommendations = recs,
                    CandlestickAnalysis.timestamp = isoformat (utcnow e)\<rparr>
             in case insert_one e (candlestick_analyses w1) analysis_data of
                  Inl ex \<Rightarrow> (Inl ex, w1)
                | Inr collection \<Rightarrow>
                    (Inr \<lparr>AnalysisResponse.analysis = reply,
                          AnalysisResponse.patterns_detected = patterns,
                          AnalysisResponse.recommendations = recs,
                          AnalysisResponse.session_id = sid,
                          AnalysisResponse.filename = UploadFile.filename file\<rparr>,
                     w1\<lparr>candlestick_analyses := collection\<rparr>)))"

text \<open>
  The parameter \<open>session_id\<close> has the default value \<open>"default"\<close>;
  \<open>session_id_param\<close> is the argument of the call, \<open>None\<close> when the call has none.
\<close>

definition analyze_candlestick_chart ::
  "env \<Rightarrow> world \<Rightarrow> UploadFile \<Rightarrow> string option \<Rightarrow> (exn + AnalysisResponse) \<times> world" where
  "analyze_candlestick_chart e w file session_id_param =
     (let sid = (case session_id_param of None \<Rightarrow> ''default'' | Some s \<Rightarrow> s)
      in case analyze_candlestick_chart_try e w file sid of
           (Inl ex, w') \<Rightarrow>
             (Inl (HTTPException 500 (''Analysis failed: '' @ str_exn ex)), w')
         | (Inr r, w') \<Rightarrow> (Inr r, w'))"

text \<open>
  The request of the analysis endpoint and the call the framework makes for it. The
  parameter \<open>session_id: str = "default"\<close> has no \<open>Form()\<close>, so the framework
  takes its argument from the query string; a field \<open>session_id\<close> of the multipart
  form is not read.
\<close>

record AnalysisRequest =
  upload :: UploadFile
  query_session_id :: "string option"
  form_session_id :: "string option"

definition analyze_candlestick_endpoint ::
  "env \<Rightarrow> world \<Rightarrow> AnalysisRequest \<Rightarrow> (exn + AnalysisResponse) \<times> world" where
  "analyze_candlestick_endpoint e w request =
     analyze_candlestick_chart e w (upload request) (query_session_id request)"

text \<open>
  The history functions return the documents as the store gave them; the endpoints
  are these functions followed by the encoding of the response.
\<close>

definition get_chat_history :: "env \<Rightarrow> world \<Rightarrow> string \<Rightarrow> ChatHistory" where
  "get_chat_history e w sid =
     (case find_sort_to_list e (chat_messages w) (\<lambda>doc. ChatMessage.session_id (snd doc)) sid
             (\<lambda>doc. ChatMessage.timestamp (snd doc)) 1 100 of
        Inr docs \<Rightarrow> \<lparr>chats = docs, ChatHistory.session_id = sid\<rparr>
      | Inl ex \<Rightarrow> \<lparr>chats = [], ChatHistory.session_id = sid\<rparr>)"

definition get_analysis_history :: "env \<Rightarrow> world \<Rightarrow> string \<Rightarrow> AnalysisHistory" where
  "get_analysis_history e w sid =
     (case find_sort_to_list e (candlestick_analyses w)
             (\<lambda>doc. CandlestickAnalysis.session_id (snd doc)) sid
             (\<lambda>doc. CandlestickAnalysis.timestamp (snd doc)) (- 1) 50 of
        Inr docs \<Rightarrow> \<lparr>analyses = docs, AnalysisHistory.session_id = sid\<rparr>
      | Inl ex \<Rightarrow> \<lparr>analyses = [], AnalysisHistory.session_id = sid\<rparr>)"

definition chat_history_endpoint :: "env \<Rightarrow> world \<Rightarrow> string \<Rightarrow> exn + ChatHistory" where
  "chat_history_endpoint e w sid =
     (let r = get_chat_history e w sid
      in case jsonable_encoder (chats r) of
           Inl ex \<Rightarrow> Inl ex
         | Inr docs \<Rightarrow> Inr r)"

definition analysis_history_endpoint :: "env \<Rightarrow> world \<Rightarrow> string \<Rightarrow> exn + AnalysisHistory" where
  "analysis_history_endpoint e w sid =
     (let r = get_analysis_history e w sid
      in case jsonable_encoder (analyses r) of
           Inl ex \<Rightarrow> Inl ex
         | Inr docs \<Rightarrow> Inr r)"

section \<open>Example requests\<close>

definition env0 :: env where
  "env0 =
     \<lparr>EMERGENT_LLM_KEY = Some ''sk-test'',
      provider = (\<lambda>chat user_message. Inr ''A doji near support: buy with a stop loss''),
      insert_error = None, find_error = None,
      uuid4 = ''0f8fad5b-d9cb-469f-a165-70867728950e'',
      utcnow = \<lparr>year = 2025, month = 1, day = 1, hour = 9, minute = 30, second = 0,
                microsecond = 1\<rparr>,
      objectid = ''65f0c0ffee0123456789abcd'',
      str_lower = lower\<rparr>"

definition world0 :: world where
  "world0 =
     \<lparr>chat_messages = [], candlestick_analyses = [], llm_chats = [], provider_calls = []\<rparr>"

definition request0 :: ChatRequest where
  "request0 = \<lparr>ChatRequest.message = ''What is a doji?'', ChatRequest.session_id = ''s1''\<rparr>"

definition chart_png :: UploadFile where
  "chart_png =
     \<lparr>UploadFile.filename = ''chart.png'', content_type = Some ''image/png'',
      file_content = ''PNG''\<rparr>"

definition notes_txt :: UploadFile where
  "notes_txt =
     \<lparr>UploadFile.filename = ''notes.txt'', content_type = Some ''text/plain'',
      file_content = ''buy''\<rparr>"

definition world3 :: world where
  "world3 =
     \<lparr>chat_messages =
        [(ObjectId ''65f0c0ffee00000000000002'',
          \<lparr>ChatMessage.id' = ''c2'', session_id = ''s1'', message = ''second'',
           response = ''r2'', timestamp = ''2025-01-01T09:30:00.000001+00:00''\<rparr>),
         (ObjectId ''65f0c0ffee00000000000003'',
          \<lparr>ChatMessage.id' = ''c3'', session_id = ''s2'', message = ''other'',
           response = ''r3'', timestamp = ''2025-01-01T09:00:00+00:00''\<rparr>),
         (ObjectId ''65f0c0ffee00000000000001'',
          \<lparr>ChatMessage.id' = ''c1'', session_id = ''s1'', message = ''first'',
           response = ''r1'', timestamp = ''2025-01-01T09:30:00+00:00''\<rparr>)],
      candlestick_analyses =
        [(ObjectId ''65f0c0ffee0000000000000a'',
          \<lparr>CandlestickAnalysis.id' = ''a1'', session_id = ''s1'', filename = ''old.png'',
           analysis = ''hammer'', patterns_detected = [''Hammer''], indicators = [],
           recommendations = [], timestamp = ''2025-01-01T09:30:00+00:00''\<rparr>),
         (ObjectId ''65f0c0ffee0000000000000b'',
          \<lparr>CandlestickAnalysis.id' = ''a2'', session_id = ''s1'', filename = ''new.png'',
           analysis = ''doji'', patterns_detected = [''Doji''], indicators = [],
           recommendations = [], timestamp = ''2025-01-02T08:00:00+00:00''\<rparr>)],
      llm_chats = [], provider_calls = []\<rparr>"

definition request_query_s1 :: AnalysisRequest where
  "request_query_s1 =
     \<lparr>upload = chart_png, query_session_id = Some ''s1'', form_session_id = None\<rparr>"

definition request_form_s1 :: AnalysisRequest where
  "request_form_s1 =
     \<lparr>upload = chart_png, query_session_id = None, form_session_id = Some ''s1''\<rparr>"

definition reply_dotted_I :: string where
  "reply_dotted_I = ''DOJ'' @ [CHR 0xC4, CHR 0xB0] @ '' after the decline''"

definition env_read_down :: env where
  "env_read_down = env0\<lparr>find_error := Some (Exception ''store unreachable'')\<rparr>"

definition env_write_down :: env where
  "env_write_down = env0\<lparr>insert_error := Some (Exception ''store down'')\<rparr>"

definition env_provider_down :: env where
  "env_provider_down =
     env0\<lparr>provider := (\<lambda>chat user_message. Inl (Exception ''Request timed out''))\<rparr>"

section \<open>Properties of the signal extraction\<close>

lemma pattern_loop_filter:
  "pattern_loop lw ps reply acc =
     acc @ map capitalize (filter (\<lambda>p. sublist (lw p) (lw reply)) ps)"
  by (induction ps arbitrary: acc) simp_all

lemma capitalize_keywords:
  "map capitalize pattern_keywords =
     [''Doji'', ''Hammer'', ''Shooting star'', ''Engulfing'', ''Pin bar'', ''Inside bar'']"
  by code_simp

lemma lower_keywords: "map lower pattern_keywords = pattern_keywords"
  by code_simp

lemma distinct_capitalized_keywords: "distinct (map capitalize pattern_keywords)"
  unfolding capitalize_keywords by simp

text \<open>
  C4. Whatever \<open>str.lower\<close> is, the detected patterns are exactly the vocabulary terms
  whose lowercase form is a substring of the lowercased text, capitalized, in
  vocabulary order and without repetition. As \<open>str.lower\<close> keeps the six vocabulary
  terms, a text whose lowercase form contains "doji" and no other term yields
  \<open>[''Doji'']\<close>.
\<close>

theorem C4_detect_patterns:
  "detect_patterns lw reply =
     map capitalize (filter (\<lambda>p. sublist (lw p) (lw reply)) pattern_keywords)
   \<and> distinct (detect_patterns lw reply)
   \<and> set (detect_patterns lw reply) =
       {capitalize p |p. p \<in> set pattern_keywords \<and> sublist (lw p) (lw reply)}
   \<and> (map lw pattern_keywords = pattern_keywords
        \<and> sublist ''doji'' (lw reply)
        \<and> \<not> sublist ''hammer'' (lw reply)
        \<and> \<not> sublist ''shooting star'' (lw reply)
        \<and> \<not> sublist ''engulfing'' (lw reply)
        \<and> \<not> sublist ''pin bar'' (lw reply)
        \<and> \<not> sublist ''inside bar'' (lw reply)
        \<longrightarrow> detect_patterns lw reply = [''Doji''])"
proof -
  let ?hit = "\<lambda>p. sublist (lw p) (lw reply)"
  have eq: "detect_patterns lw reply = map capitalize (filter ?hit pattern_keywords)"
    by (simp add: detect_patterns_def pattern_loop_filter)
  have dist: "distinct (detect_patterns lw reply)"
    unfolding eq using distinct_capitalized_keywords by (rule distinct_map_filter)
  have sets: "set (detect_patterns lw reply) =
      {capitalize p |p. p \<in> set pattern_keywords \<and> ?hit p}"
    unfolding eq by auto
  have cap: "capitalize ''doji'' = ''Doji''"
    using capitalize_keywords by (simp add: pattern_keywords_def)
  have only: "detect_patterns lw reply = [''Doji'']"
    if kw: "map lw pattern_keywords = pattern_keywords"
      and hit: "sublist ''doji'' (lw reply)"
      and miss: "\<not> sublist ''hammer'' (lw reply)" "\<not> sublist ''shooting star'' (lw reply)"
        "\<not> sublist ''engulfing'' (lw reply)" "\<not> sublist ''pin bar'' (lw reply)"
        "\<not> sublist ''inside bar'' (lw reply)"
  proof -
    have low: "lw ''doji'' = ''doji''" "lw ''hammer'' = ''hammer''"
      "lw ''shooting star'' = ''shooting star''" "lw ''engulfing'' = ''engulfing''"
      "lw ''pin bar'' = ''pin bar''" "lw ''inside bar'' = ''inside bar''"
      using kw by (simp_all add: pattern_keywords_def)
    show ?thesis
      unfolding eq using hit miss
      by (simp add: pattern_keywords_def low cap del: capitalize.simps)
  qed
  from eq dist sets only show ?thesis by blast
qed

theorem C4_detect_patterns_witness:
  "map lower pattern_keywords = pattern_keywords
   \<and> sublist ''doji'' (lower reply_dotted_I)
   \<and> detect_patterns lower reply_dotted_I = [''Doji'']
   \<and> detect_patterns lower ''A Doji formed; set a stop loss and BUY'' = [''Doji'']
   \<and> detect_patterns lower ''doji DOJI doji, then an Inside Bar and a hammer'' =
       [''Doji'', ''Hammer'', ''Inside bar'']"
proof -
  have a: "sublist ''doji'' (lower reply_dotted_I)"
    "sublist ''doji'' (lower ''A Doji formed; set a stop loss and BUY'')"
    by code_simp+
  have b: "\<not> sublist ''hammer'' (lower reply_dotted_I)"
    "\<not> sublist ''shooting star'' (lower reply_dotted_I)"
    "\<not> sublist ''engulfing'' (lower reply_dotted_I)"
    "\<not> sublist ''pin bar'' (lower reply_dotted_I)"
    "\<not> sublist ''inside bar'' (lower reply_dotted_I)"
    by code_simp+
  have b': "\<not> sublist ''hammer'' (lower ''A Doji formed; set a stop loss and BUY'')"
    "\<not> sublist ''shooting star'' (lower ''A Doji formed; set a stop loss and BUY'')"
    "\<not> sublist ''engulfing'' (lower ''A Doji formed; set a stop loss and BUY'')"
    "\<not> sublist ''pin bar'' (lower ''A Doji formed; set a stop loss and BUY'')"
    "\<not> sublist ''inside bar'' (lower ''A Doji formed; set a stop loss and BUY'')"
    by code_simp+
  have c: "detect_patterns lower ''doji DOJI doji, then an Inside Bar and a hammer'' =
       [''Doji'', ''Hammer'', ''Inside bar'']"
    by code_simp
  from a b b' c lower_keywords
    C4_detect_patterns [of lower reply_dotted_I]
    C4_detect_patterns [of lower "''A Doji formed; set a stop loss and BUY''"]
  show ?thesis by blast
qed

text \<open>
  C5. The recommendation tags are independent substring tests on the lowercased text:
  \<open>risk_management\<close> iff "stop loss" occurs, \<open>profit_booking\<close> iff "profit" occurs,
  and \<open>action\<close> is the buy signal if "buy" occurs, else the sell signal if "sell"
  occurs, else absent. No other key is produced.
\<close>

theorem C5_extract_recommendations:
  "map_of (extract_recommendations lw reply) ''risk_management'' =
     (if sublist ''stop loss'' (lw reply) then Some ''Stop loss recommended'' else None)
   \<and> map_of (extract_recommendations lw reply) ''profit_booking'' =
     (if sublist ''profit'' (lw reply) then Some ''Profit targets identified'' else None)
   \<and> map_of (extract_recommendations lw reply) ''action'' =
     (if sublist ''buy'' (lw reply) then Some ''Potential buy signal''
      else if sublist ''sell'' (lw reply) then Some ''Potential sell signal''
      else None)
   \<and> fst ` set (extract_recommendations lw reply)
       \<subseteq> {''risk_management'', ''profit_booking'', ''action''}
   \<and> distinct (map fst (extract_recommendations lw reply))"
  by (simp add: extract_recommendations_def)

section \<open>Properties of the model gateway\<close>

lemma get_llm_chat_ok:
  "EMERGENT_LLM_KEY e = Some key \<Longrightarrow> key \<noteq> [] \<Longrightarrow>
   get_llm_chat e w sid sm =
     (Inr (new_llm_chat w key sid sm), w\<lparr>llm_chats := llm_chats w @ [new_llm_chat w key sid sm]\<rparr>)"
  by (simp add: get_llm_chat_def Let_def)

lemma get_llm_chat_InrD:
  "get_llm_chat e w sid sm = (Inr c, w') \<Longrightarrow>
   \<exists>key. EMERGENT_LLM_KEY e = Some key \<and> key \<noteq> [] \<and> c = new_llm_chat w key sid sm
     \<and> w' = w\<lparr>llm_chats := llm_chats w @ [c]\<rparr>"
  by (auto simp: get_llm_chat_def Let_def split: option.splits if_splits)

lemma get_llm_chat_InlD:
  "get_llm_chat e w sid sm = (Inl ex, w') \<Longrightarrow>
   ex = HTTPException 500 ''LLM API key not configured'' \<and> w' = w"
  by (auto simp: get_llm_chat_def Let_def split: option.splits if_splits)

text \<open>
  C9 (as stated: repeated calls with one session identifier reuse one handle). Two calls
  of \<open>get_llm_chat\<close> in a row with the session \<open>s1\<close> return two different
  \<open>LlmChat\<close> objects, and two objects exist afterwards.
\<close>

theorem C9_handle_not_reused_counterexample:
  "fst (get_llm_chat env0 world0 ''s1'' None) \<noteq>
     fst (get_llm_chat env0 (snd (get_llm_chat env0 world0 ''s1'' None)) ''s1'' None)
   \<and> length (llm_chats
         (snd (get_llm_chat env0 (snd (get_llm_chat env0 world0 ''s1'' None)) ''s1'' None))) = 2"
  by code_simp

text \<open>
  C9 (amended). With the credential configured, every call of \<open>get_llm_chat\<close> builds
  a new \<open>LlmChat\<close> object from the given session identifier and adds it to the objects
  created so far; nothing is looked up. Two calls with the same session identifier, the
  second in any later state, return two different objects that carry that identifier.
\<close>

theorem C9_fresh_handle_each_call:
  "(\<forall>key. EMERGENT_LLM_KEY e = Some key \<and> key \<noteq> []
       \<longrightarrow> get_llm_chat e w sid sm =
             (Inr (new_llm_chat w key sid sm),
              w\<lparr>llm_chats := llm_chats w @ [new_llm_chat w key sid sm]\<rparr>))
   \<and> (\<forall>c1 w1 e2 w2 sm2 c2 w3.
         get_llm_chat e w sid sm = (Inr c1, w1)
         \<and> length (llm_chats w1) \<le> length (llm_chats w2)
         \<and> get_llm_chat e2 w2 sid sm2 = (Inr c2, w3)
       \<longrightarrow> c1 \<noteq> c2 \<and> object_id c1 < object_id c2
           \<and> LlmChat.session_id c1 = sid \<and> LlmChat.session_id c2 = sid
           \<and> llm_chats w1 = llm_chats w @ [c1] \<and> llm_chats w3 = llm_chats w2 @ [c2])"
proof -
  have a: "\<forall>key. EMERGENT_LLM_KEY e = Some key \<and> key \<noteq> []
       \<longrightarrow> get_llm_chat e w sid sm =
             (Inr (new_llm_chat w key sid sm),
              w\<lparr>llm_chats := llm_chats w @ [new_llm_chat w key sid sm]\<rparr>)"
    by (simp add: get_llm_chat_ok)
  have b: "\<forall>c1 w1 e2 w2 sm2 c2 w3.
         get_llm_chat e w sid sm = (Inr c1, w1)
         \<and> length (llm_chats w1) \<le> length (llm_chats w2)
         \<and> get_llm_chat e2 w2 sid sm2 = (Inr c2, w3)
       \<longrightarrow> c1 \<noteq> c2 \<and> object_id c1 < object_id c2
           \<and> LlmChat.session_id c1 = sid \<and> LlmChat.session_id c2 = sid
           \<and> llm_chats w1 = llm_chats w @ [c1] \<and> llm_chats w3 = llm_chats w2 @ [c2]"
  proof (intro allI impI, elim conjE)
    fix c1 w1 e2 w2 sm2 c2 w3
    assume 1: "get_llm_chat e w sid sm = (Inr c1, w1)"
      and 2: "length (llm_chats w1) \<le> length (llm_chats w2)"
      and 3: "get_llm_chat e2 w2 sid sm2 = (Inr c2, w3)"
    from get_llm_chat_InrD [OF 1] obtain k1 where
      c1: "c1 = new_llm_chat w k1 sid sm" and w1: "w1 = w\<lparr>llm_chats := llm_chats w @ [c1]\<rparr>"
      by blast
    from get_llm_chat_InrD [OF 3] obtain k2 where
      c2: "c2 = new_llm_chat w2 k2 sid sm2" and w3: "w3 = w2\<lparr>llm_chats := llm_chats w2 @ [c2]\<rparr>"
      by blast
    have lt: "object_id c1 < object_id c2"
      using 2 by (simp add: c1 c2 w1 new_llm_chat_def)
    then have "c1 \<noteq> c2" by auto
    with lt show "c1 \<noteq> c2 \<and> object_id c1 < object_id c2
           \<and> LlmChat.session_id c1 = sid \<and> LlmChat.session_id c2 = sid
           \<and> llm_chats w1 = llm_chats w @ [c1] \<and> llm_chats w3 = llm_chats w2 @ [c2]"
      by (simp add: c1 c2 w1 w3 new_llm_chat_def)
  qed
  from a b show ?thesis by blast
qed

theorem C9_fresh_handle_each_call_witness:
  "get_llm_chat env0 world0 ''s1'' None =
     (Inr (new_llm_chat world0 ''sk-test'' ''s1'' None),
      world0\<lparr>llm_chats := [new_llm_chat world0 ''sk-test'' ''s1'' None]\<rparr>)
   \<and> object_id (new_llm_chat world0 ''sk-test'' ''s1'' None) = 0
   \<and> (\<exists>c2 w3. get_llm_chat env0 (world0\<lparr>llm_chats := [new_llm_chat world0 ''sk-test'' ''s1'' None]\<rparr>)
                  ''s1'' None = (Inr c2, w3)
        \<and> new_llm_chat world0 ''sk-test'' ''s1'' None \<noteq> c2
        \<and> LlmChat.session_id c2 = ''s1'')"
proof -
  let ?c1 = "new_llm_chat world0 ''sk-test'' ''s1'' None"
  let ?w1 = "world0\<lparr>llm_chats := llm_chats world0 @ [?c1]\<rparr>"
  have k: "EMERGENT_LLM_KEY env0 = Some ''sk-test'' \<and> ''sk-test'' \<noteq> []"
    by (simp add: env0_def)
  have w: "llm_chats world0 = []"
    by (simp add: world0_def)
  from C9_fresh_handle_each_call [of env0 world0 "''s1''" None] k
  have 1: "get_llm_chat env0 world0 ''s1'' None = (Inr ?c1, ?w1)"
    by blast
  from C9_fresh_handle_each_call [of env0 ?w1 "''s1''" None] k
  have 2: "get_llm_chat env0 ?w1 ''s1'' None =
      (Inr (new_llm_chat ?w1 ''sk-test'' ''s1'' None),
       ?w1\<lparr>llm_chats := llm_chats ?w1 @ [new_llm_chat ?w1 ''sk-test'' ''s1'' None]\<rparr>)"
    by blast
  have 3: "length (llm_chats ?w1) \<le> length (llm_chats ?w1)"
    by simp
  from C9_fresh_handle_each_call [of env0 world0 "''s1''" None] 1 2 3
  have 4: "?c1 \<noteq> new_llm_chat ?w1 ''sk-test'' ''s1'' None
      \<and> LlmChat.session_id (new_llm_chat ?w1 ''sk-test'' ''s1'' None) = ''s1''"
    by blast
  have 5: "object_id ?c1 = 0"
    by (simp add: new_llm_chat_def w)
  from 1 2 4 5 show ?thesis unfolding w by auto
qed

section \<open>Properties of the chat endpoint\<close>

text \<open>
  C7. A chat response carries the session identifier of its request, unchanged: every
  response the endpoint returns has it, and when the credential is configured, the
  provider answers and the store accepts the write, the endpoint returns the provider's
  text with that identifier and stores the turn under it.
\<close>

theorem C7_chat_session_id:
  "(\<forall>r w'. chat_with_ai e w request = (Inr r, w')
       \<longrightarrow> ChatResponse.session_id r = ChatRequest.session_id request)
   \<and> (\<forall>key reply.
        EMERGENT_LLM_KEY e = Some key \<and> key \<noteq> []
        \<and> provider e (new_llm_chat w key (ChatRequest.session_id request) None)
              \<lparr>text' = ChatRequest.message request, file_contents = []\<rparr> = Inr reply
        \<and> insert_error e = None
        \<longrightarrow> fst (chat_with_ai e w request) =
              Inr \<lparr>ChatResponse.response = reply,
                   ChatResponse.session_id = ChatRequest.session_id request\<rparr>
          \<and> chat_messages (snd (chat_with_ai e w request)) =
              chat_messages w @
                [(ObjectId (objectid e),
                  \<lparr>ChatMessage.id' = uuid4 e,
                   ChatMessage.session_id = ChatRequest.session_id request,
                   ChatMessage.message = ChatRequest.message request,
                   ChatMessage.response = reply,
                   ChatMessage.timestamp = isoformat (utcnow e)\<rparr>)])"
  apply (rule conjI)
   apply (auto simp: chat_with_ai_def chat_with_ai_try_def send_message_def insert_one_def Let_def
      split: prod.splits sum.splits option.splits)[1]
  apply (auto simp: chat_with_ai_def chat_with_ai_try_def get_llm_chat_ok send_message_def insert_one_def Let_def)
  done

theorem C7_chat_session_id_witness:
  "chat_with_ai env0 world0 request0 =
     (Inr \<lparr>ChatResponse.response = ''A doji near support: buy with a stop loss'',
           ChatResponse.session_id = ''s1''\<rparr>,
      snd (chat_with_ai env0 world0 request0))
   \<and> ChatRequest.session_id request0 = ''s1''
   \<and> map (\<lambda>doc. ChatMessage.session_id (snd doc))
         (chat_messages (snd (chat_with_ai env0 world0 request0))) = [''s1'']"
proof -
  have k: "EMERGENT_LLM_KEY env0 = Some ''sk-test'' \<and> ''sk-test'' \<noteq> []"
    by (simp add: env0_def)
  have p: "provider env0 (new_llm_chat world0 ''sk-test'' (ChatRequest.session_id request0) None)
              \<lparr>text' = ChatRequest.message request0, file_contents = []\<rparr>
           = Inr ''A doji near support: buy with a stop loss''"
    by (simp add: env0_def)
  have i: "insert_error env0 = None"
    by (simp add: env0_def)
  have s: "ChatRequest.session_id request0 = ''s1''"
    by (simp add: request0_def)
  from C7_chat_session_id [of env0 world0 request0] k p i
  have r: "fst (chat_with_ai env0 world0 request0) =
      Inr \<lparr>ChatResponse.response = ''A doji near support: buy with a stop loss'',
           ChatResponse.session_id = ChatRequest.session_id request0\<rparr>"
    and m: "chat_messages (snd (chat_with_ai env0 world0 request0)) =
              chat_messages world0 @
                [(ObjectId (objectid env0),
                  \<lparr>ChatMessage.id' = uuid4 env0,
                   ChatMessage.session_id = ChatRequest.session_id request0,
                   ChatMessage.message = ChatRequest.message request0,
                   ChatMessage.response = ''A doji near support: buy with a stop loss'',
                   ChatMessage.timestamp = isoformat (utcnow env0)\<rparr>)]"
    by blast+
  from r have "chat_with_ai env0 world0 request0 =
     (Inr \<lparr>ChatResponse.response = ''A doji near support: buy with a stop loss'',
           ChatResponse.session_id = ChatRequest.session_id request0\<rparr>,
      snd (chat_with_ai env0 world0 request0))"
    by (metis prod.collapse)
  with m s show ?thesis by (simp add: world0_def)
qed

lemma chat_provider_failure:
  assumes "EMERGENT_LLM_KEY e = Some key" "key \<noteq> []"
    and "provider e (new_llm_chat w key (ChatRequest.session_id request) None)
           \<lparr>text' = ChatRequest.message request, file_contents = []\<rparr> = Inl ex"
  shows "fst (chat_with_ai e w request) =
           Inl (HTTPException 500 (''Chat service error: '' @ str_exn ex))
       \<and> chat_messages (snd (chat_with_ai e w request)) = chat_messages w"
  using assms
  by (simp add: chat_with_ai_def chat_with_ai_try_def get_llm_chat_ok send_message_def)

section \<open>Properties of the analysis endpoint\<close>

lemma str_nat_400: "str_nat 400 = ''400''"
  by code_simp

lemma analyze_candlestick_image_world:
  "analyze_candlestick_image e w image_base64 sid = (reply, w') \<Longrightarrow>
   chat_messages w' = chat_messages w \<and> candlestick_analyses w' = candlestick_analyses w"
  by (auto simp: analyze_candlestick_image_def get_llm_chat_def send_message_def Let_def
      split: option.splits if_splits sum.splits)

lemma non_image_rejected:
  "content_type file = Some ct \<Longrightarrow> \<not> prefix ''image/'' ct \<Longrightarrow>
   analyze_candlestick_chart e w file sidp =
     (Inl (HTTPException 500 ''Analysis failed: 400: File must be an image''), w)"
  by (simp add: analyze_candlestick_chart_def analyze_candlestick_chart_try_def str_nat_400)

lemma analysis_provider_failure:
  assumes "EMERGENT_LLM_KEY e = Some key" "key \<noteq> []"
    and "provider e (new_llm_chat w key sid (Some analysis_system_message))
           \<lparr>text' = analysis_user_text, file_contents = [b64encode (file_content file)]\<rparr> = Inl ex"
    and "content_type file = Some ct" "prefix ''image/'' ct"
    and "insert_error e = None"
  shows "\<exists>r w' doc. analyze_candlestick_chart e w file (Some sid) = (Inr r, w')
      \<and> AnalysisResponse.analysis r = ''Error analyzing image: '' @ str_exn ex
      \<and> candlestick_analyses w' = candlestick_analyses w @ [doc]
      \<and> CandlestickAnalysis.analysis (snd doc) = ''Error analyzing image: '' @ str_exn ex
      \<and> CandlestickAnalysis.session_id (snd doc) = sid"
  using assms
  by (simp add: analyze_candlestick_chart_def analyze_candlestick_chart_try_def
      analyze_candlestick_image_def get_llm_chat_ok send_message_def insert_one_def Let_def)

text \<open>
  C1. The claim asks for an error response and no stored record when the provider call
  of an analysis turn fails. Here the provider times out on an uploaded PNG: the endpoint
  answers with status 200, the analysis text is the error message, and a record with
  that text is stored.
\<close>

theorem C1_provider_failure_is_persisted:
  "fst (analyze_candlestick_chart env_provider_down world0 chart_png (Some ''s1'')) =
     Inr \<lparr>AnalysisResponse.analysis = ''Error analyzing image: Request timed out'',
          AnalysisResponse.patterns_detected = [],
          AnalysisResponse.recommendations = [],
          AnalysisResponse.session_id = ''s1'',
          AnalysisResponse.filename = ''chart.png''\<rparr>
   \<and> candlestick_analyses
        (snd (analyze_candlestick_chart env_provider_down world0 chart_png (Some ''s1''))) =
     [(ObjectId ''65f0c0ffee0123456789abcd'',
       \<lparr>CandlestickAnalysis.id' = ''0f8fad5b-d9cb-469f-a165-70867728950e'',
        CandlestickAnalysis.session_id = ''s1'',
        CandlestickAnalysis.filename = ''chart.png'',
        CandlestickAnalysis.analysis = ''Error analyzing image: Request timed out'',
        CandlestickAnalysis.patterns_detected = [],
        CandlestickAnalysis.indicators = [],
        CandlestickAnalysis.recommendations = [],
        CandlestickAnalysis.timestamp = ''2025-01-01T09:30:00.000001+00:00''\<rparr>)]
   \<and> status_code_of
        (fst (analyze_candlestick_chart env_provider_down world0 chart_png (Some ''s1''))) = 200"
  by code_simp

text \<open>
  C2. The claim asks for status 400 when the declared media kind is not an image. Here
  the upload is declared \<open>text/plain\<close>: the \<open>HTTPException\<close> with status 400 raised
  by the check is caught by the endpoint's own \<open>except Exception\<close> clause and
  answered with status 500; no provider call is made and nothing is stored (the state
  is unchanged).
\<close>

theorem C2_non_image_gets_500:
  "analyze_candlestick_chart env0 world0 notes_txt (Some ''s1'') =
     (Inl (HTTPException 500 ''Analysis failed: 400: File must be an image''), world0)
   \<and> status_code_of (fst (analyze_candlestick_chart env0 world0 notes_txt (Some ''s1''))) = 500"
  by code_simp

text \<open>
  C3 (as stated: after a successful model call a failed store write still returns the
  response). Here the provider answers and the store refuses the write: the chat
  endpoint answers with status 500.
\<close>

theorem C3_store_write_failure_counterexample:
  "provider env_write_down (new_llm_chat world0 ''sk-test'' ''s1'' None)
       \<lparr>text' = ''What is a doji?'', file_contents = []\<rparr>
     = Inr ''A doji near support: buy with a stop loss''
   \<and> insert_error env_write_down = Some (Exception ''store down'')
   \<and> fst (chat_with_ai env_write_down world0 request0) =
       Inl (HTTPException 500 ''Chat service error: store down'')"
  by code_simp

text \<open>
  C3 (amended). When the store refuses the write, the chat endpoint (after a successful
  provider call) and the analysis endpoint (for an image upload) raise an
  \<open>HTTPException\<close> with status 500 whose detail carries the store's error message;
  the model's text is not returned and the collection is unchanged.
\<close>

theorem C3_store_write_failure:
  assumes "insert_error e = Some ex"
  shows "(\<forall>key reply.
            EMERGENT_LLM_KEY e = Some key \<and> key \<noteq> []
            \<and> provider e (new_llm_chat w key (ChatRequest.session_id request) None)
                 \<lparr>text' = ChatRequest.message request, file_contents = []\<rparr> = Inr reply
            \<longrightarrow> fst (chat_with_ai e w request) =
                  Inl (HTTPException 500 (''Chat service error: '' @ str_exn ex))
              \<and> chat_messages (snd (chat_with_ai e w request)) = chat_messages w)
       \<and> (\<forall>ct. content_type file = Some ct \<and> prefix ''image/'' ct
            \<longrightarrow> fst (analyze_candlestick_chart e w file sidp) =
                  Inl (HTTPException 500 (''Analysis failed: '' @ str_exn ex))
              \<and> candlestick_analyses (snd (analyze_candlestick_chart e w file sidp)) =
                  candlestick_analyses w)"
proof -
  have chat: "\<forall>key reply.
            EMERGENT_LLM_KEY e = Some key \<and> key \<noteq> []
            \<and> provider e (new_llm_chat w key (ChatRequest.session_id request) None)
                 \<lparr>text' = ChatRequest.message request, file_contents = []\<rparr> = Inr reply
            \<longrightarrow> fst (chat_with_ai e w request) =
                  Inl (HTTPException 500 (''Chat service error: '' @ str_exn ex))
              \<and> chat_messages (snd (chat_with_ai e w request)) = chat_messages w"
    using assms
    by (simp add: chat_with_ai_def chat_with_ai_try_def get_llm_chat_ok send_message_def
        insert_one_def Let_def)
  have img: "\<forall>ct. content_type file = Some ct \<and> prefix ''image/'' ct
            \<longrightarrow> fst (analyze_candlestick_chart e w file sidp) =
                  Inl (HTTPException 500 (''Analysis failed: '' @ str_exn ex))
              \<and> candlestick_analyses (snd (analyze_candlestick_chart e w file sidp)) =
                  candlestick_analyses w"
    using assms
    by (auto simp: analyze_candlestick_chart_def analyze_candlestick_chart_try_def
        insert_one_def Let_def split: prod.splits dest: analyze_candlestick_image_world)
  from chat img show ?thesis by blast
qed

theorem C3_store_write_failure_witness:
  "insert_error env_write_down = Some (Exception ''store down'')
   \<and> fst (chat_with_ai env_write_down world0 request0) =
       Inl (HTTPException 500 ''Chat service error: store down'')
   \<and> chat_messages (snd (chat_with_ai env_write_down world0 request0)) = []
   \<and> fst (analyze_candlestick_chart env_write_down world0 chart_png (Some ''s1'')) =
       Inl (HTTPException 500 ''Analysis failed: store down'')
   \<and> candlestick_analyses
        (snd (analyze_candlestick_chart env_write_down world0 chart_png (Some ''s1''))) = []"
proof -
  have i: "insert_error env_write_down = Some (Exception ''store down'')"
    by (simp add: env_write_down_def env0_def)
  have k: "EMERGENT_LLM_KEY env_write_down = Some ''sk-test'' \<and> ''sk-test'' \<noteq> []"
    by (simp add: env_write_down_def env0_def)
  have p: "provider env_write_down
             (new_llm_chat world0 ''sk-test'' (ChatRequest.session_id request0) None)
             \<lparr>text' = ChatRequest.message request0, file_contents = []\<rparr>
           = Inr ''A doji near support: buy with a stop loss''"
    by (simp add: env_write_down_def env0_def)
  have c: "content_type chart_png = Some ''image/png'' \<and> prefix ''image/'' ''image/png''"
    by (simp add: chart_png_def)
  have w: "chat_messages world0 = []" "candlestick_analyses world0 = []"
    by (simp_all add: world0_def)
  from C3_store_write_failure [OF i, of world0 request0 chart_png "Some ''s1''"] i k p c
  show ?thesis unfolding w by (simp del: str_exn.simps add: str_exn.simps(2))
qed

lemma default_session_parameter:
  "analyze_candlestick_chart e w file None =
     analyze_candlestick_chart e w file (Some ''default'')"
  by (simp add: analyze_candlestick_chart_def)

lemma form_session_id_not_read:
  "analyze_candlestick_endpoint e w (request\<lparr>form_session_id := x\<rparr>) =
     analyze_candlestick_endpoint e w request"
  by (simp add: analyze_candlestick_endpoint_def)

lemma session_of_analysis_request:
  assumes "content_type (upload request) = Some ct" "prefix ''image/'' ct"
    and "insert_error e = None"
  shows "\<exists>r w' doc.
      analyze_candlestick_endpoint e w request = (Inr r, w')
      \<and> AnalysisResponse.session_id r =
          (case query_session_id request of None \<Rightarrow> ''default'' | Some s \<Rightarrow> s)
      \<and> candlestick_analyses w' = candlestick_analyses w @ [doc]
      \<and> CandlestickAnalysis.session_id (snd doc) =
          (case query_session_id request of None \<Rightarrow> ''default'' | Some s \<Rightarrow> s)"
  using assms
  by (auto simp: analyze_candlestick_endpoint_def analyze_candlestick_chart_def
      analyze_candlestick_chart_try_def insert_one_def Let_def
      split: prod.splits dest: analyze_candlestick_image_world)

lemma form_session_id_stored_under_default:
  "form_session_id request_form_s1 = Some ''s1''
   \<and> map (\<lambda>doc. CandlestickAnalysis.session_id (snd doc))
        (candlestick_analyses (snd (analyze_candlestick_endpoint env0 world0 request_form_s1))) =
       [''default'']"
  by code_simp

text \<open>
  C10. The claim asks that a request without the form field \<open>session_id\<close> is
  processed, stored and answered under the session \<open>default\<close>. Here the request has
  no such form field and carries \<open>session_id=s1\<close> in its query string: the provider is
  called, the record is stored and the response is given under \<open>s1\<close>.
\<close>

theorem C10_form_field_is_not_the_parameter:
  "form_session_id request_query_s1 = None
   \<and> fst (analyze_candlestick_endpoint env0 world0 request_query_s1) =
       Inr \<lparr>AnalysisResponse.analysis = ''A doji near support: buy with a stop loss'',
            AnalysisResponse.patterns_detected = [''Doji''],
            AnalysisResponse.recommendations =
              [(''risk_management'', ''Stop loss recommended''),
               (''action'', ''Potential buy signal'')],
            AnalysisResponse.session_id = ''s1'',
            AnalysisResponse.filename = ''chart.png''\<rparr>
   \<and> map (\<lambda>doc. CandlestickAnalysis.session_id (snd doc))
        (candlestick_analyses (snd (analyze_candlestick_endpoint env0 world0 request_query_s1))) =
       [''s1'']
   \<and> map (\<lambda>call. LlmChat.session_id (fst call))
        (provider_calls (snd (analyze_candlestick_endpoint env0 world0 request_query_s1))) =
       [''s1'']"
  by code_simp

section \<open>Properties of the timestamps\<close>

text \<open>
  The text order of two stored timestamps is the order in time of the instants they
  were made from, so a query sorted by \<open>timestamp\<close> is sorted by creation time.
\<close>

lemma block_less_iff:
  fixes a b :: "'a::linorder list"
  assumes "length a = length b"
  shows "a @ x < b @ y \<longleftrightarrow> a < b \<or> a = b \<and> x < y"
  using assms by (induction a b rule: list_induct2) auto

lemma length_zfill: "length (zfill k n) = k"
  by (induction k arbitrary: n) simp_all

lemma digit_char_less: "a < 10 \<Longrightarrow> b < 10 \<Longrightarrow> digit_char a < digit_char b \<longleftrightarrow> a < b"
  by (simp add: digit_char_def less_char_def)

lemma digit_char_eq: "a < 10 \<Longrightarrow> b < 10 \<Longrightarrow> digit_char a = digit_char b \<longleftrightarrow> a = b"
  using digit_char_less [of a b] digit_char_less [of b a] by (cases a b rule: linorder_cases) auto

lemma div_mod_less_iff:
  "(m::nat) < n \<longleftrightarrow> m div 10 < n div 10 \<or> m div 10 = n div 10 \<and> m mod 10 < n mod 10"
proof -
  define a b c d where "a = m div 10" and "b = m mod 10" and "c = n div 10" and "d = n mod 10"
  have m: "m = 10 * a + b" and n: "n = 10 * c + d" and bd: "b < 10" "d < 10"
    by (simp_all add: a_def b_def c_def d_def)
  have "10 * a + b < 10 * c + d \<longleftrightarrow> a < c \<or> a = c \<and> b < d"
    using bd by arith
  then show ?thesis
    unfolding m n by (simp add: a_def b_def c_def d_def)
qed

lemma div_mod_eq_iff:
  "(m::nat) = n \<longleftrightarrow> m div 10 = n div 10 \<and> m mod 10 = n mod 10"
  by (metis div_mult_mod_eq)

lemma zfill_less_eq:
  "m < 10 ^ k \<Longrightarrow> n < 10 ^ k \<Longrightarrow>
   (zfill k m < zfill k n \<longleftrightarrow> m < n) \<and> (zfill k m = zfill k n \<longleftrightarrow> m = n)"
proof (induction k arbitrary: m n)
  case 0
  then show ?case by simp
next
  case (Suc k)
  have d: "m div 10 < 10 ^ k" "n div 10 < 10 ^ k"
    using Suc.prems by (simp_all add: less_mult_imp_div_less mult.commute)
  have r: "m mod 10 < 10" "n mod 10 < 10" by simp_all
  note ih = Suc.IH [OF d]
  have lt: "zfill (Suc k) m < zfill (Suc k) n \<longleftrightarrow> m < n"
    unfolding div_mod_less_iff [of m n]
    using ih digit_char_less [OF r]
    by (simp add: block_less_iff length_zfill)
  have eq: "zfill (Suc k) m = zfill (Suc k) n \<longleftrightarrow> m = n"
    unfolding div_mod_eq_iff [of m n]
    using ih digit_char_eq [OF r] by simp
  from lt eq show ?case by blast
qed

lemma zfill_less: "m < 10 ^ k \<Longrightarrow> n < 10 ^ k \<Longrightarrow> zfill k m < zfill k n \<longleftrightarrow> m < n"
  using zfill_less_eq by blast

lemma zfill_eq: "m < 10 ^ k \<Longrightarrow> n < 10 ^ k \<Longrightarrow> zfill k m = zfill k n \<longleftrightarrow> m = n"
  using zfill_less_eq by blast

lemma fraction_less_iff:
  assumes "u < 10 ^ 6" "v < 10 ^ 6"
  shows "(if u = 0 then [] else ''.'' @ zfill 6 u) @ ''+00:00''
           < (if v = 0 then [] else ''.'' @ zfill 6 v) @ ''+00:00'' \<longleftrightarrow> u < v"
proof -
  have "zfill 6 u @ ''+00:00'' < zfill 6 v @ ''+00:00'' \<longleftrightarrow> u < v"
    using assms by (simp add: block_less_iff length_zfill zfill_less)
  then show ?thesis by (simp add: less_char_def)
qed

lemma fields_less_iff:
  assumes "y1 < 10 ^ 4" "y2 < 10 ^ 4" "mo1 < 10 ^ 2" "mo2 < 10 ^ 2" "d1 < 10 ^ 2" "d2 < 10 ^ 2"
    and "h1 < 10 ^ 2" "h2 < 10 ^ 2" "mi1 < 10 ^ 2" "mi2 < 10 ^ 2" "s1 < 10 ^ 2" "s2 < 10 ^ 2"
  shows "zfill 4 y1 @ ''-'' @ zfill 2 mo1 @ ''-'' @ zfill 2 d1 @ ''T'' @
         zfill 2 h1 @ '':'' @ zfill 2 mi1 @ '':'' @ zfill 2 s1 @ x
       < zfill 4 y2 @ ''-'' @ zfill 2 mo2 @ ''-'' @ zfill 2 d2 @ ''T'' @
         zfill 2 h2 @ '':'' @ zfill 2 mi2 @ '':'' @ zfill 2 s2 @ y
     \<longleftrightarrow>
       y1 < y2 \<or> y1 = y2 \<and>
      (mo1 < mo2 \<or> mo1 = mo2 \<and>
      (d1 < d2 \<or> d1 = d2 \<and>
      (h1 < h2 \<or> h1 = h2 \<and>
      (mi1 < mi2 \<or> mi1 = mi2 \<and>
      (s1 < s2 \<or> s1 = s2 \<and> x < y)))))"
proof -
  have sep: "\<And>c (u::string) v. (c # u < c # v) = (u < v)"
    by simp
  have blk: "\<And>k m n (u::string) v. m < 10 ^ k \<Longrightarrow> n < 10 ^ k \<Longrightarrow>
      (zfill k m @ u < zfill k n @ v) = (m < n \<or> m = n \<and> u < v)"
    by (simp add: block_less_iff length_zfill zfill_less zfill_eq)
  show ?thesis
    by (simp only: append_Cons append_Nil sep blk assms)
qed

lemma isoformat_less_iff:
  assumes "valid_datetime a" "valid_datetime b"
  shows "isoformat a < isoformat b \<longleftrightarrow> datetime_less a b"
proof -
  have a: "year a < 10 ^ 4" "month a < 10 ^ 2" "day a < 10 ^ 2" "hour a < 10 ^ 2"
    "minute a < 10 ^ 2" "second a < 10 ^ 2" "microsecond a < 10 ^ 6"
    using assms(1) by (simp_all add: valid_datetime_def)
  have b: "year b < 10 ^ 4" "month b < 10 ^ 2" "day b < 10 ^ 2" "hour b < 10 ^ 2"
    "minute b < 10 ^ 2" "second b < 10 ^ 2" "microsecond b < 10 ^ 6"
    using assms(2) by (simp_all add: valid_datetime_def)
  show ?thesis
    unfolding isoformat_def datetime_less_def
    by (simp only: fields_less_iff [OF a(1) b(1) a(2) b(2) a(3) b(3) a(4) b(4) a(5) b(5) a(6) b(6)]
        fraction_less_iff [OF a(7) b(7)])
qed

section \<open>Properties of the history endpoints\<close>

lemma take_sorted_wrt:
  assumes "sorted_wrt R (map f ys)"
  shows "sorted_wrt R (map f (take n ys))"
    and "\<forall>x\<in>set (take n ys). \<forall>y\<in>set (drop n ys). R (f x) (f y)"
proof -
  have "sorted_wrt R (map f (take n ys) @ map f (drop n ys))"
    using assms by (simp flip: map_append)
  then show "sorted_wrt R (map f (take n ys))"
    and "\<forall>x\<in>set (take n ys). \<forall>y\<in>set (drop n ys). R (f x) (f y)"
    by (auto simp: sorted_wrt_append)
qed

lemma cursor_sort_asc: "sorted_wrt (\<le>) (map key (cursor_sort key 1 docs))"
  by (simp add: cursor_sort_def)

lemma cursor_sort_desc: "sorted_wrt (\<ge>) (map key (cursor_sort key (- 1) docs))"
  by (simp add: cursor_sort_def sorted_wrt_rev flip: rev_map)

lemma mset_cursor_sort: "mset (cursor_sort key direction docs) = mset docs"
  by (simp add: cursor_sort_def)

lemma query_props:
  assumes "find_error e = None"
    and "sorted_wrt R (map key (cursor_sort key direction (filter (\<lambda>doc. sid_of doc = sid) coll)))"
  shows "\<exists>docs rest.
      find_sort_to_list e coll sid_of sid key direction n = Inr docs
      \<and> sorted_wrt R (map key docs)
      \<and> length docs = min n (length (filter (\<lambda>doc. sid_of doc = sid) coll))
      \<and> mset (filter (\<lambda>doc. sid_of doc = sid) coll) = mset docs + mset rest
      \<and> (\<forall>x\<in>set docs. \<forall>y\<in>set rest. R (key x) (key y))"
proof -
  let ?mine = "filter (\<lambda>doc. sid_of doc = sid) coll"
  let ?s = "cursor_sort key direction ?mine"
  have 1: "find_sort_to_list e coll sid_of sid key direction n = Inr (take n ?s)"
    using assms(1) by (simp add: find_sort_to_list_def)
  have 2: "sorted_wrt R (map key (take n ?s))"
    and 3: "\<forall>x\<in>set (take n ?s). \<forall>y\<in>set (drop n ?s). R (key x) (key y)"
    using take_sorted_wrt [OF assms(2)] by blast+
  have "length ?s = length ?mine"
    using mset_cursor_sort [of key direction ?mine] by (metis size_mset)
  then have 4: "length (take n ?s) = min n (length ?mine)" by simp
  have "mset ?s = mset (take n ?s) + mset (drop n ?s)"
    by (metis append_take_drop_id mset_append)
  then have 5: "mset ?mine = mset (take n ?s) + mset (drop n ?s)"
    by (simp add: mset_cursor_sort)
  from 1 2 3 4 5 show ?thesis by blast
qed

lemma set_query_subset:
  assumes "find_sort_to_list e coll sid_of sid key direction n = Inr docs"
  shows "set docs \<subseteq> set coll"
proof -
  have "set (cursor_sort key direction xs) = set xs" for xs :: "'a list"
    using mset_cursor_sort [of key direction xs] by (metis set_mset_mset)
  then show ?thesis
    using assms set_take_subset [of n "cursor_sort key direction (filter (\<lambda>doc. sid_of doc = sid) coll)"]
    by (auto simp: find_sort_to_list_def split: option.splits)
qed

text \<open>
  What the history functions compute, when the store answers: the chat documents of the
  session in ascending timestamp order, the 100 oldest of them; the analysis documents
  in descending timestamp order, the 50 newest of them. By \<open>isoformat_less_iff\<close> the
  order of the timestamp texts is the order of the creation instants.
\<close>

lemma history_query_order:
  assumes up: "find_error e = None"
  shows "(\<exists>rest.
          sorted_wrt (\<le>)
            (map (\<lambda>doc. ChatMessage.timestamp (snd doc)) (chats (get_chat_history e w sid)))
        \<and> length (chats (get_chat_history e w sid)) = min 100 (length (session_chats w sid))
        \<and> mset (session_chats w sid) = mset (chats (get_chat_history e w sid)) + mset rest
        \<and> (\<forall>x\<in>set (chats (get_chat_history e w sid)). \<forall>y\<in>set rest.
              ChatMessage.timestamp (snd x) \<le> ChatMessage.timestamp (snd y)))
    \<and> (\<exists>rest.
          sorted_wrt (\<ge>)
            (map (\<lambda>doc. CandlestickAnalysis.timestamp (snd doc))
               (analyses (get_analysis_history e w sid)))
        \<and> length (analyses (get_analysis_history e w sid)) =
            min 50 (length (session_analyses w sid))
        \<and> mset (session_analyses w sid) =
            mset (analyses (get_analysis_history e w sid)) + mset rest
        \<and> (\<forall>x\<in>set (analyses (get_analysis_history e w sid)). \<forall>y\<in>set rest.
              CandlestickAnalysis.timestamp (snd x) \<ge> CandlestickAnalysis.timestamp (snd y)))"
proof -
  obtain cs crest where c:
    "find_sort_to_list e (chat_messages w) (\<lambda>doc. ChatMessage.session_id (snd doc)) sid
       (\<lambda>doc. ChatMessage.timestamp (snd doc)) 1 100 = Inr cs"
    "sorted_wrt (\<le>) (map (\<lambda>doc. ChatMessage.timestamp (snd doc)) cs)"
    "length cs = min 100 (length (session_chats w sid))"
    "mset (session_chats w sid) = mset cs + mset crest"
    "\<forall>x\<in>set cs. \<forall>y\<in>set crest.
        ChatMessage.timestamp (snd x) \<le> ChatMessage.timestamp (snd y)"
    using query_props [OF up cursor_sort_asc,
        where sid_of = "\<lambda>doc. ChatMessage.session_id (snd doc)"
        and key = "\<lambda>doc. ChatMessage.timestamp (snd doc)" and sid = sid
        and coll = "chat_messages w" and n = 100]
    unfolding session_chats_def by blast
  obtain as arest where a:
    "find_sort_to_list e (candlestick_analyses w)
       (\<lambda>doc. CandlestickAnalysis.session_id (snd doc)) sid
       (\<lambda>doc. CandlestickAnalysis.timestamp (snd doc)) (- 1) 50 = Inr as"
    "sorted_wrt (\<ge>) (map (\<lambda>doc. CandlestickAnalysis.timestamp (snd doc)) as)"
    "length as = min 50 (length (session_analyses w sid))"
    "mset (session_analyses w sid) = mset as + mset arest"
    "\<forall>x\<in>set as. \<forall>y\<in>set arest.
        CandlestickAnalysis.timestamp (snd x) \<ge> CandlestickAnalysis.timestamp (snd y)"
    using query_props [OF up cursor_sort_desc,
        where sid_of = "\<lambda>doc. CandlestickAnalysis.session_id (snd doc)"
        and key = "\<lambda>doc. CandlestickAnalysis.timestamp (snd doc)" and sid = sid
        and coll = "candlestick_analyses w" and n = 50]
    unfolding session_analyses_def by blast
  have ch: "get_chat_history e w sid = \<lparr>chats = cs, ChatHistory.session_id = sid\<rparr>"
    by (simp add: get_chat_history_def c(1))
  have ah: "get_analysis_history e w sid =
      \<lparr>analyses = as, AnalysisHistory.session_id = sid\<rparr>"
    by (simp add: get_analysis_history_def a(1))
  show ?thesis
    unfolding ch ah using c a by auto
qed

text \<open>
  A session without records, known or not, gets the empty list from both endpoints,
  whether the store answers or not.
\<close>

lemma history_of_empty_session:
  "session_chats w sid = [] \<Longrightarrow>
     chat_history_endpoint e w sid = Inr \<lparr>chats = [], ChatHistory.session_id = sid\<rparr>"
  "session_analyses w sid = [] \<Longrightarrow>
     analysis_history_endpoint e w sid =
       Inr \<lparr>analyses = [], AnalysisHistory.session_id = sid\<rparr>"
  by (simp_all add: chat_history_endpoint_def analysis_history_endpoint_def
      get_chat_history_def get_analysis_history_def find_sort_to_list_def
      session_chats_def session_analyses_def cursor_sort_def jsonable_encoder_def
      split: option.splits)

text \<open>
  Every document that \<open>insert_one\<close> has written carries an \<open>ObjectId\<close>. In such a
  store, a session with at least one record makes the encoding of the history response
  fail, for both endpoints: the caller gets status 500 instead of the records.
\<close>

lemma jsonable_encoder_ObjectId:
  assumes "docs \<noteq> []" "\<forall>doc\<in>set docs. \<exists>hex. fst doc = ObjectId hex"
  shows "jsonable_encoder docs = Inl (Exception ''ValueError: ObjectId object is not iterable'')"
proof -
  obtain doc where d: "doc \<in> set docs"
    using assms(1) by (cases docs) auto
  with assms(2) obtain hex where "fst doc = ObjectId hex"
    by blast
  then have "\<not> encodable (fst doc)"
    by simp
  with d have "\<not> list_all (\<lambda>doc. encodable (fst doc)) docs"
    by (auto simp: list_all_iff)
  then show ?thesis
    by (simp add: jsonable_encoder_def)
qed

lemma history_with_records_fails:
  assumes up: "find_error e = None"
  shows "\<forall>doc\<in>set (chat_messages w). \<exists>hex. fst doc = ObjectId hex \<Longrightarrow>
         session_chats w sid \<noteq> [] \<Longrightarrow>
         status_code_of (chat_history_endpoint e w sid) = 500"
    and "\<forall>doc\<in>set (candlestick_analyses w). \<exists>hex. fst doc = ObjectId hex \<Longrightarrow>
         session_analyses w sid \<noteq> [] \<Longrightarrow>
         status_code_of (analysis_history_endpoint e w sid) = 500"
proof -
  assume ids: "\<forall>doc\<in>set (chat_messages w). \<exists>hex. fst doc = ObjectId hex"
    and ne: "session_chats w sid \<noteq> []"
  let ?cs = "chats (get_chat_history e w sid)"
  have q: "find_sort_to_list e (chat_messages w) (\<lambda>doc. ChatMessage.session_id (snd doc)) sid
       (\<lambda>doc. ChatMessage.timestamp (snd doc)) 1 100 = Inr ?cs"
    using up by (simp add: get_chat_history_def find_sort_to_list_def)
  have "length ?cs = min 100 (length (session_chats w sid))"
    using history_query_order [OF up, of w sid] by blast
  moreover from ne have "0 < length (session_chats w sid)"
    by simp
  ultimately have "0 < length ?cs"
    by simp
  then have "?cs \<noteq> []"
    by auto
  moreover have "\<forall>doc\<in>set ?cs. \<exists>hex. fst doc = ObjectId hex"
    using set_query_subset [OF q] ids by blast
  ultimately show "status_code_of (chat_history_endpoint e w sid) = 500"
    by (simp add: chat_history_endpoint_def jsonable_encoder_ObjectId)
next
  assume ids: "\<forall>doc\<in>set (candlestick_analyses w). \<exists>hex. fst doc = ObjectId hex"
    and ne: "session_analyses w sid \<noteq> []"
  let ?as = "analyses (get_analysis_history e w sid)"
  have q: "find_sort_to_list e (candlestick_analyses w)
       (\<lambda>doc. CandlestickAnalysis.session_id (snd doc)) sid
       (\<lambda>doc. CandlestickAnalysis.timestamp (snd doc)) (- 1) 50 = Inr ?as"
    using up by (simp add: get_analysis_history_def find_sort_to_list_def)
  have "length ?as = min 50 (length (session_analyses w sid))"
    using history_query_order [OF up, of w sid] by blast
  moreover from ne have "0 < length (session_analyses w sid)"
    by simp
  ultimately have "0 < length ?as"
    by simp
  then have "?as \<noteq> []"
    by auto
  moreover have "\<forall>doc\<in>set ?as. \<exists>hex. fst doc = ObjectId hex"
    using set_query_subset [OF q] ids by blast
  ultimately show "status_code_of (analysis_history_endpoint e w sid) = 500"
    by (simp add: analysis_history_endpoint_def jsonable_encoder_ObjectId)
qed

text \<open>
  \<open>prepare_from_mongo\<close>, which the endpoints do not call, would make the documents
  encodable.
\<close>

lemma jsonable_encoder_prepare_from_mongo:
  "jsonable_encoder (prepare_from_mongo docs) = Inr (prepare_from_mongo docs)"
proof -
  have "encodable (str_id i)" for i
    by (cases i) simp_all
  then show ?thesis
    by (simp add: jsonable_encoder_def prepare_from_mongo_def list_all_iff)
qed

text \<open>
  C6. The claim asks that the chat history and the analysis history of a session are
  returned in timestamp order. Here the session \<open>s1\<close> has two chat records and two
  analysis records: the functions compute the ordered lists, whose documents carry the
  \<open>ObjectId\<close> of the store, and both endpoints answer with status 500. Only a session
  without records is answered, with the empty list.
\<close>

theorem C6_history_with_records_is_500:
  "map (\<lambda>doc. ChatMessage.id' (snd doc)) (chats (get_chat_history env0 world3 ''s1'')) =
     [''c1'', ''c2'']
   \<and> map (\<lambda>doc. CandlestickAnalysis.id' (snd doc))
        (analyses (get_analysis_history env0 world3 ''s1'')) = [''a2'', ''a1'']
   \<and> chat_history_endpoint env0 world3 ''s1'' =
       Inl (Exception ''ValueError: ObjectId object is not iterable'')
   \<and> analysis_history_endpoint env0 world3 ''s1'' =
       Inl (Exception ''ValueError: ObjectId object is not iterable'')
   \<and> status_code_of (chat_history_endpoint env0 world3 ''s1'') = 500
   \<and> status_code_of (analysis_history_endpoint env0 world3 ''s1'') = 500
   \<and> chat_history_endpoint env0 world3 ''s9'' =
       Inr \<lparr>chats = [], ChatHistory.session_id = ''s9''\<rparr>"
  by code_simp

text \<open>
  C8. When the store's read fails, both history endpoints return the empty list
  together with the requested session identifier.
\<close>

theorem C8_history_read_failure:
  "find_error e = Some ex \<Longrightarrow>
   get_chat_history e w sid = \<lparr>chats = [], ChatHistory.session_id = sid\<rparr>
   \<and> get_analysis_history e w sid = \<lparr>analyses = [], AnalysisHistory.session_id = sid\<rparr>"
  by (simp add: get_chat_history_def get_analysis_history_def find_sort_to_list_def)

theorem C8_history_read_failure_witness:
  "find_error env_read_down = Some (Exception ''store unreachable'')
   \<and> session_chats world3 ''s1'' \<noteq> []
   \<and> get_chat_history env_read_down world3 ''s1'' =
       \<lparr>chats = [], ChatHistory.session_id = ''s1''\<rparr>
   \<and> get_analysis_history env_read_down world3 ''s1'' =
       \<lparr>analyses = [], AnalysisHistory.session_id = ''s1''\<rparr>"
proof -
  have f: "find_error env_read_down = Some (Exception ''store unreachable'')"
    by (simp add: env_read_down_def)
  have n: "session_chats world3 ''s1'' \<noteq> []"
    by (simp add: session_chats_def world3_def)
  from C8_history_read_failure [OF f, of world3 "''s1''"] f n show ?thesis by blast
qed

end
